theory Spec2Isabelle
  imports Complex_Main "HOL-Library.Sublist"
begin

section \<open>JavaScript values\<close>

text \<open>
  Prices are JavaScript numbers. The finite ones are rationals, and the comparisons
  \<open><\<close>, \<open><=\<close>, \<open>>\<close> on them are exact, so a price is a \<open>rat\<close>. Subtraction is
  modelled exactly (the rounding of a double subtraction is left out).
\<close>

type_synonym price = rat

text \<open>
  What \<open>parseFloat\<close> can return: a finite number, an infinity, or \<open>NaN\<close> for a string
  with no numeric prefix (the empty string among them).
\<close>

datatype jsnum = NaN | NegInf | Fin rat | PosInf

text \<open>The relational operators: every comparison with \<open>NaN\<close> is false.\<close>

fun js_lt :: "jsnum \<Rightarrow> jsnum \<Rightarrow> bool" where
  "js_lt (Fin a) (Fin b) = (a < b)"
| "js_lt NegInf (Fin b) = True"
| "js_lt NegInf PosInf = True"
| "js_lt (Fin a) PosInf = True"
| "js_lt _ _ = False"

definition js_gt :: "jsnum \<Rightarrow> jsnum \<Rightarrow> bool" where
  "js_gt a b = js_lt b a"

definition js_le :: "jsnum \<Rightarrow> jsnum \<Rightarrow> bool" where
  "js_le a b = (a \<noteq> NaN \<and> b \<noteq> NaN \<and> (js_lt a b \<or> a = b))"

text \<open>Decimal digits of a non-negative integer, as a template literal prints them.\<close>

fun string_of_nat :: "nat \<Rightarrow> string" where
  "string_of_nat n =
     (if n < 10 then [''0123456789'' ! n]
      else string_of_nat (n div 10) @ [''0123456789'' ! (n mod 10)])"

declare string_of_nat.simps [simp del]

text \<open>
  A value parsed from a JSON body, and \<open>undefined\<close> for a property that is not there.
  An object is its list of key and value pairs; the first pair of a key is the one read.
\<close>

datatype jsval =
    JUndefined
  | JNull
  | JBool bool
  | JNum rat
  | JStr string
  | JArr "jsval list"
  | JObj "(string \<times> jsval) list"

text \<open>The condition of an \<open>if\<close>: \<open>undefined\<close>, \<open>null\<close>, \<open>false\<close>, \<open>0\<close> and \<open>''\<close> are falsy.\<close>

fun truthy :: "jsval \<Rightarrow> bool" where
  "truthy JUndefined = False"
| "truthy JNull = False"
| "truthy (JBool b) = b"
| "truthy (JNum q) = (q \<noteq> 0)"
| "truthy (JStr s) = (s \<noteq> [])"
| "truthy (JArr xs) = True"
| "truthy (JObj kvs) = True"

text \<open>
  \<open>v.k\<close> for a \<open>v\<close> that is neither \<open>null\<close> nor \<open>undefined\<close> and a key \<open>k\<close> that no
  prototype defines (\<open>error\<close>, \<open>validation_errors\<close>, \<open>message\<close>).
\<close>

fun property :: "jsval \<Rightarrow> string \<Rightarrow> jsval" where
  "property (JObj kvs) k = (case map_of kvs k of Some v \<Rightarrow> v | None \<Rightarrow> JUndefined)"
| "property _ k = JUndefined"

text \<open>\<open>Array.prototype.join\<close> on strings.\<close>

fun join :: "string \<Rightarrow> string list \<Rightarrow> string" where
  "join sep [] = []"
| "join sep [x] = x"
| "join sep (x # y # ys) = x @ sep @ join sep (y # ys)"

text \<open>
  Conversion to a string, as \<open>+\<close> with a string operand, \<open>join\<close> and \<open>new Error\<close> do it.
  The printing of a number is the language's, a parameter here. An element of an array
  that is \<open>null\<close> or \<open>undefined\<close> is printed as the empty string.
\<close>

fun ToString :: "(rat \<Rightarrow> string) \<Rightarrow> jsval \<Rightarrow> string"
  and element_string :: "(rat \<Rightarrow> string) \<Rightarrow> jsval \<Rightarrow> string" where
  "ToString num JUndefined = ''undefined''"
| "ToString num JNull = ''null''"
| "ToString num (JBool b) = (if b then ''true'' else ''false'')"
| "ToString num (JNum q) = num q"
| "ToString num (JStr s) = s"
| "ToString num (JArr xs) = join '','' (map (element_string num) xs)"
| "ToString num (JObj kvs) = ''[object Object]''"
| "element_string num JUndefined = []"
| "element_string num JNull = []"
| "element_string num v = ToString num v"

section \<open>The fetch wrapper (services/authService.ts, \<open>apiCall\<close>)\<close>

text \<open>An exception, with its message.\<close>

datatype Error = Error string

text \<open>
  The request \<open>fetch\<close> is called with: the init object is \<open>options\<close> with the headers
  replaced. The callers below pass a method and a body at most.
\<close>

record Options =
  http_method :: "string option"
  body :: "jsval option"

record Request =
  url :: string
  init :: Options
  headers :: "(string \<times> string) list"

text \<open>
  The response \<open>fetch\<close> resolves to. \<open>json\<close> is the outcome of \<open>response.json()\<close>:
  \<open>Inl\<close> when the body is not JSON and the promise rejects.
\<close>

record Response =
  ok :: bool
  http_status :: nat
  statusText :: string
  json :: "Error + jsval"

definition API_BASE_URL :: string where
  "API_BASE_URL = ''http://localhost:5000/api''"

text \<open>
  The message of the error thrown for a response that is not ok. It starts as the HTTP
  status line. Inside the \<open>try\<close>: a body that is not JSON, or is \<open>null\<close>, throws and
  leaves the status line; an \<open>error\<close> property that is truthy replaces it, and then
  \<open>validation_errors\<close> (joined with a comma and a space) or else \<open>message\<close> is appended
  after a colon. A truthy \<open>validation_errors\<close> that is not an array has no \<open>join\<close>: the
  call throws after \<open>errorMessage\<close> was already set to the \<open>error\<close> property.
\<close>

definition errorMessage :: "(rat \<Rightarrow> string) \<Rightarrow> Response \<Rightarrow> string" where
  "errorMessage num response =
     (let status_line = ''HTTP '' @ string_of_nat (http_status response) @ '': '' @ statusText response
      in case json response of
           Inl e \<Rightarrow> status_line
         | Inr JNull \<Rightarrow> status_line
         | Inr JUndefined \<Rightarrow> status_line
         | Inr errorData \<Rightarrow>
             if truthy (property errorData ''error'') then
               (if truthy (property errorData ''validation_errors'') then
                  (case property errorData ''validation_errors'' of
                     JArr xs \<Rightarrow>
                       ToString num (property errorData ''error'') @ '': '' @
                         join '', '' (map (element_string num) xs)
                   | _ \<Rightarrow> ToString num (property errorData ''error''))
                else if truthy (property errorData ''message'') then
                  ToString num (property errorData ''error'') @ '': '' @
                    ToString num (property errorData ''message'')
                else ToString num (property errorData ''error''))
             else status_line)"

text \<open>
  \<open>apiCall\<close>. \<open>token\<close> is \<open>localStorage.getItem('access_token')\<close>; \<open>fetch\<close> is the
  network, \<open>Inl\<close> when its promise rejects. The result is the promise \<open>apiCall\<close> returns:
  \<open>Inl\<close> the error it is rejected with, \<open>Inr\<close> the value it resolves to.
\<close>

definition apiCall_request :: "string option \<Rightarrow> string \<Rightarrow> Options \<Rightarrow> Request" where
  "apiCall_request token path options =
     \<lparr> url = API_BASE_URL @ path, init = options,
       headers = [(''Content-Type'', ''application/json'')] @
                 (case token of
                    None \<Rightarrow> []
                  | Some t \<Rightarrow> if t \<noteq> [] then [(''Authorization'', ''Bearer '' @ t)] else []) \<rparr>"

definition apiCall ::
  "(rat \<Rightarrow> string) \<Rightarrow> string option \<Rightarrow> (Request \<Rightarrow> Error + Response) \<Rightarrow>
   string \<Rightarrow> Options \<Rightarrow> Error + jsval" where
  "apiCall num token fetch path options =
     (case fetch (apiCall_request token path options) of
        Inl e \<Rightarrow> Inl e
      | Inr response \<Rightarrow>
          if \<not> ok response then Inl (Error (errorMessage num response))
          else json response)"

section \<open>Data model of the marketplace client (services/apiService.ts)\<close>

datatype status = pending | accepted | rejected

datatype sender = buyer | system

text \<open>\<open>ChatMessage\<close>: the timestamp is \<open>new Date().toISOString()\<close>, kept as a string.\<close>

record ChatMessage =
  sender :: sender
  message :: string
  timestamp :: string

text \<open>
  \<open>Negotiation\<close> as the seller dashboard receives it (its \<open>id\<close> is \<open>neg_id\<close> here).
  \<open>buyer_contact\<close> is optional in the interface; the other fields are always there.
\<close>

record Negotiation =
  neg_id :: nat
  vehicle_sale_id :: nat
  buyer_name :: string
  buyer_email :: string
  buyer_contact :: "string option"
  final_offer :: price
  chat_history :: "ChatMessage list"
  status :: status

text \<open>\<open>NegotiationResponse\<close>: what a negotiation turn resolves to.\<close>

record NegotiationResponse =
  response :: string
  current_offer :: price
  is_final :: bool
  negotiation_id :: nat
  response_chat_history :: "ChatMessage list"
  contact_collected :: "bool option"
  final_price :: "price option"

section \<open>The marketplace operations of \<open>apiService\<close>\<close>

text \<open>The path and options each operation hands to \<open>apiCall\<close>.\<close>

definition startNegotiation_call :: "nat \<Rightarrow> string \<Rightarrow> string \<times> Options" where
  "startNegotiation_call saleId msg =
     (''/vehicle-sales/'' @ string_of_nat saleId @ ''/negotiate'',
      \<lparr> http_method = Some ''POST'', body = Some (JObj [(''message'', JStr msg)]) \<rparr>)"

definition continueNegotiation_call :: "nat \<Rightarrow> nat \<Rightarrow> string \<Rightarrow> string \<times> Options" where
  "continueNegotiation_call saleId negotiationId msg =
     (''/vehicle-sales/'' @ string_of_nat saleId @ ''/negotiate'',
      \<lparr> http_method = Some ''POST'',
        body = Some (JObj [(''message'', JStr msg),
                           (''negotiation_id'', JNum (of_nat negotiationId))]) \<rparr>)"

definition getSaleNegotiations_call :: "nat \<Rightarrow> string \<times> Options" where
  "getSaleNegotiations_call saleId =
     (''/vehicle-sales/'' @ string_of_nat saleId @ ''/negotiations'',
      \<lparr> http_method = None, body = None \<rparr>)"


definition rejectNegotiation_call :: "nat \<Rightarrow> string \<times> Options" where
  "rejectNegotiation_call negotiationId =
     (''/vehicle-sales/negotiations/'' @ string_of_nat negotiationId @ ''/reject'',
      \<lparr> http_method = Some ''PUT'', body = None \<rparr>)"


definition rejectNegotiation ::
  "(rat \<Rightarrow> string) \<Rightarrow> string option \<Rightarrow> (Request \<Rightarrow> Error + Response) \<Rightarrow> nat \<Rightarrow> Error + jsval" where
  "rejectNegotiation num token fetch negotiationId =
     apiCall num token fetch (fst (rejectNegotiation_call negotiationId))
       (snd (rejectNegotiation_call negotiationId))"

definition continueNegotiation ::
  "(rat \<Rightarrow> string) \<Rightarrow> string option \<Rightarrow> (Request \<Rightarrow> Error + Response) \<Rightarrow>
   nat \<Rightarrow> nat \<Rightarrow> string \<Rightarrow> Error + jsval" where
  "continueNegotiation num token fetch saleId negotiationId msg =
     apiCall num token fetch (fst (continueNegotiation_call saleId negotiationId msg))
       (snd (continueNegotiation_call saleId negotiationId msg))"

section \<open>Listing a vehicle for sale (pages/VehiclesPage.tsx, \<open>handleSellSubmit\<close>)\<close>

text \<open>
  The vehicle picked for sale; only its \<open>id\<close> is read (\<open>vehicle_id\<close> here), which the
  interface declares optional.
\<close>

record Vehicle =
  vehicle_id :: "nat option"

text \<open>\<open>sellFormData\<close>: the two prices are the text of the number inputs.\<close>

record SellFormData =
  form_selling_price :: string
  form_minimum_price :: string
  features :: "string list"
  description :: string
  newFeature :: string

text \<open>\<open>saleData\<close>, the argument of \<open>apiService.createVehicleSale\<close>.\<close>

record SaleData =
  sale_vehicle_id :: "nat option"
  selling_price :: jsnum
  minimum_price :: jsnum
  sale_features :: "string list"
  sale_description :: string

text \<open>What the handler does that can be seen from outside, in order.\<close>

datatype SellEffect = Alert string | CreateVehicleSale SaleData

text \<open>
  \<open>handleSellSubmit\<close>. \<open>parseFloat\<close> is the language's; \<open>createVehicleSale\<close> is the
  outcome of the API call (\<open>apiCall\<close> on \<open>/vehicle-sales\<close>), \<open>Inl\<close> when it throws.
  The resetting of the form and the reloading of the vehicle list after a success are
  left out.
\<close>

definition handleSellSubmit ::
  "(string \<Rightarrow> jsnum) \<Rightarrow> (SaleData \<Rightarrow> Error + jsval) \<Rightarrow> Vehicle option \<Rightarrow> SellFormData \<Rightarrow>
   SellEffect list" where
  "handleSellSubmit parseFloat createVehicleSale sellingVehicle sellFormData =
     (case sellingVehicle of
        None \<Rightarrow> []
      | Some v \<Rightarrow>
          (let sp = parseFloat (form_selling_price sellFormData);
               mp = parseFloat (form_minimum_price sellFormData)
           in if js_le sp (Fin 0) \<or> js_le mp (Fin 0) then
                [Alert ''Please enter valid prices'']
              else if js_gt mp sp then
                [Alert ''Minimum price cannot be higher than selling price'']
              else
                (let saleData = \<lparr> sale_vehicle_id = vehicle_id v, selling_price = sp,
                                  minimum_price = mp, sale_features = features sellFormData,
                                  sale_description = description sellFormData \<rparr>
                 in case createVehicleSale saleData of
                      Inr r \<Rightarrow> [CreateVehicleSale saleData,
                                Alert ''Vehicle listed for sale successfully!'']
                    | Inl (Error m) \<Rightarrow> [CreateVehicleSale saleData,
                                        Alert (''Failed to list vehicle: '' @ m)])))"

section \<open>The negotiation chat of a listing (pages/VehicleDetailsPage.tsx)\<close>

text \<open>
  The listing shown, with the fields the page reads: its \<open>id\<close> (\<open>sale_id\<close> here) and,
  when the optional \<open>vehicle\<close> is there, the vehicle's year, make and model.
\<close>

record VehicleInfo =
  vehicle_year :: nat
  vehicle_make :: string
  vehicle_model :: string

record VehicleSale =
  sale_id :: nat
  vehicle_info :: "VehicleInfo option"

text \<open>
  \<open>String.prototype.trim\<close> is the language's: \<open>sendMessage\<close> and the handlers below
  take it as the parameter \<open>trim\<close>, so what is proved of them holds of the real one,
  which also strips the white space beyond U+00FF (U+1680, U+2000 to U+200A, U+2028,
  U+2029, U+202F, U+205F, U+3000, U+FEFF).

  To run the concrete pages further down, \<open>trim_latin1\<close> is \<open>trim\<close> on the strings
  whose code units are all below 256, which is all a \<open>char\<close> can hold: of those code
  units the white space and line terminators are exactly TAB, LF, VT, FF, CR, the
  space and the no-break space U+00A0.
\<close>

definition is_space :: "char \<Rightarrow> bool" where
  "is_space c =
     (c \<in> set [CHR 0x09, CHR 0x0A, CHR 0x0B, CHR 0x0C, CHR 0x0D, CHR 0x20, CHR 0xA0])"

definition trim_latin1 :: "string \<Rightarrow> string" where
  "trim_latin1 s = rev (dropWhile is_space (rev (dropWhile is_space s)))"

text \<open>
  The state of the page: the \<open>useState\<close> cells, and two cells of bookkeeping.
  \<open>requests\<close> lists every call handed to \<open>apiCall\<close> so far, oldest first. \<open>awaiting\<close>
  holds one entry per \<open>sendMessage\<close> that is waiting for its response: \<open>True\<close> when it
  took the \<open>startNegotiation\<close> branch, so that it will store the negotiation id.
\<close>

record ChatPage =
  vehicle :: "VehicleSale option"
  showChat :: bool
  chatMessages :: "ChatMessage list"
  messageInput :: string
  isSending :: bool
  negotiationId :: "nat option"
  isNegotiationComplete :: bool
  finalPrice :: "price option"
  requests :: "(string \<times> Options) list"
  awaiting :: "bool list"

definition initial_page :: ChatPage where
  "initial_page =
     \<lparr> vehicle = None, showChat = False, chatMessages = [], messageInput = [],
       isSending = False, negotiationId = None, isNegotiationComplete = False,
       finalPrice = None, requests = [], awaiting = [] \<rparr>"

text \<open>The greeting \<open>startNegotiation\<close> sends; a missing vehicle prints as \<open>undefined\<close>.\<close>

definition greeting :: "VehicleSale \<Rightarrow> string" where
  "greeting v =
     ''Hi! I'' @ [CHR 0x27] @ ''m interested in your '' @
     (case vehicle_info v of None \<Rightarrow> ''undefined'' | Some i \<Rightarrow> string_of_nat (vehicle_year i)) @ '' '' @
     (case vehicle_info v of None \<Rightarrow> ''undefined'' | Some i \<Rightarrow> vehicle_make i) @ '' '' @
     (case vehicle_info v of None \<Rightarrow> ''undefined'' | Some i \<Rightarrow> vehicle_model i) @
     ''. What'' @ [CHR 0x27] @ ''s the price?''"

text \<open>
  \<open>sendMessage\<close> up to its \<open>await\<close>: the guard, the buyer's message appended, the
  input cleared, and the call made. \<open>if (negotiationId)\<close> is false for no id and for
  the id 0. \<open>now\<close> is \<open>new Date().toISOString()\<close>; \<open>trim\<close> is \<open>String.prototype.trim\<close>.
\<close>

definition sendMessage ::
  "(string \<Rightarrow> string) \<Rightarrow> string \<Rightarrow> string \<Rightarrow> ChatPage \<Rightarrow> ChatPage" where
  "sendMessage trim now msg s =
     (case vehicle s of
        None \<Rightarrow> s
      | Some v \<Rightarrow>
          if trim msg = [] \<and> trim (messageInput s) = [] then s
          else
            (let messageToSend = (if msg \<noteq> [] then msg else messageInput s);
                 continuing = (case negotiationId s of None \<Rightarrow> False | Some n \<Rightarrow> n \<noteq> 0)
             in s \<lparr> isSending := True,
                    chatMessages := chatMessages s @
                      [\<lparr> sender = buyer, message = messageToSend, timestamp = now \<rparr>],
                    messageInput := [],
                    requests := requests s @
                      [if continuing
                       then continueNegotiation_call (sale_id v) (the (negotiationId s)) messageToSend
                       else startNegotiation_call (sale_id v) messageToSend],
                    awaiting := awaiting s @ [\<not> continuing] \<rparr>))"

text \<open>
  The rest of \<open>sendMessage\<close>, run when the call of the \<open>i\<close>-th waiting \<open>sendMessage\<close>
  settles: on a response the negotiation id is stored (after \<open>startNegotiation\<close> only),
  the reply is appended and, under \<open>response.contact_collected && response.final_price\<close>,
  the negotiation is marked complete; on an error the apology is appended; \<open>finally\<close>
  \<open>isSending\<close> is cleared.
\<close>

definition settle :: "string \<Rightarrow> nat \<Rightarrow> Error + NegotiationResponse \<Rightarrow> ChatPage \<Rightarrow> ChatPage" where
  "settle now i outcome s =
     (if i < length (awaiting s) then
        (let s1 = s \<lparr> awaiting := take i (awaiting s) @ drop (Suc i) (awaiting s) \<rparr>
         in case outcome of
              Inl e \<Rightarrow>
                s1 \<lparr> chatMessages := chatMessages s1 @
                       [\<lparr> sender = system,
                          message = ''Sorry, there was an error processing your message. Please try again.'',
                          timestamp = now \<rparr>],
                     isSending := False \<rparr>
            | Inr r \<Rightarrow>
                (let s2 = (if awaiting s ! i then s1 \<lparr> negotiationId := Some (negotiation_id r) \<rparr>
                           else s1);
                     s3 = s2 \<lparr> chatMessages := chatMessages s2 @
                                 [\<lparr> sender = system, message = response r, timestamp = now \<rparr>] \<rparr>;
                     s4 = (if contact_collected r = Some True \<and>
                              (case final_price r of None \<Rightarrow> False | Some p \<Rightarrow> p \<noteq> 0)
                           then s3 \<lparr> isNegotiationComplete := True, finalPrice := final_price r \<rparr>
                           else s3)
                 in s4 \<lparr> isSending := False \<rparr>))
      else s)"

text \<open>\<open>startNegotiation\<close>, the handler of the Start Price Negotiation button.\<close>

definition startNegotiation :: "(string \<Rightarrow> string) \<Rightarrow> string \<Rightarrow> ChatPage \<Rightarrow> ChatPage" where
  "startNegotiation trim now s =
     (case vehicle s of
        None \<Rightarrow> s
      | Some v \<Rightarrow>
          (let s1 = s \<lparr> showChat := True \<rparr>
           in if length (chatMessages s) = 0 then sendMessage trim now (greeting v) s1 else s1))"

text \<open>The chat input and its send button are rendered under \<open>showChat\<close> and \<open>!isNegotiationComplete\<close>.\<close>

definition chat_input_rendered :: "ChatPage \<Rightarrow> bool" where
  "chat_input_rendered s = (showChat s \<and> \<not> isNegotiationComplete s)"

text \<open>
  What can happen to the page. The input is disabled while \<open>isSending\<close>; the send
  button is disabled while \<open>isSending\<close> or while the input is blank; the Enter key
  calls \<open>sendMessage('')\<close> under \<open>!isSending\<close>. A control that is not rendered or is
  disabled takes no event, so the page stays as it is.
\<close>

datatype Event =
    VehicleLoaded VehicleSale
  | ClickStartNegotiation string
  | ClickClose
  | ChangeInput string
  | ClickSend string
  | PressEnter string
  | Settle string nat "Error + NegotiationResponse"

fun step :: "(string \<Rightarrow> string) \<Rightarrow> ChatPage \<Rightarrow> Event \<Rightarrow> ChatPage" where
  "step trim s (VehicleLoaded v) = s \<lparr> vehicle := Some v \<rparr>"
| "step trim s (ClickStartNegotiation now) = startNegotiation trim now s"
| "step trim s ClickClose = (if showChat s then s \<lparr> showChat := False \<rparr> else s)"
| "step trim s (ChangeInput text) =
     (if chat_input_rendered s \<and> \<not> isSending s then s \<lparr> messageInput := text \<rparr> else s)"
| "step trim s (ClickSend now) =
     (if chat_input_rendered s \<and> \<not> (isSending s \<or> trim (messageInput s) = [])
      then sendMessage trim now [] s else s)"
| "step trim s (PressEnter now) =
     (if chat_input_rendered s \<and> \<not> isSending s then sendMessage trim now [] s else s)"
| "step trim s (Settle now i outcome) = settle now i outcome s"

definition run :: "(string \<Rightarrow> string) \<Rightarrow> ChatPage \<Rightarrow> Event list \<Rightarrow> ChatPage" where
  "run trim s es = foldl (step trim) s es"

section \<open>Seller dashboard: the Best Offer panel (pages/SellerDashboard.tsx)\<close>

text \<open>
  \<open>Math.min(...xs)\<close> on finite numbers: \<open>Infinity\<close> for no argument, which the panel
  never reaches because it is rendered under \<open>negotiations.length > 0\<close>; the model
  returns \<open>None\<close> there.
\<close>

fun Math_min :: "price list \<Rightarrow> price option" where
  "Math_min [] = None"
| "Math_min (x # xs) = (case Math_min xs of None \<Rightarrow> Some x | Some m \<Rightarrow> Some (min x m))"

text \<open>
  What the panel shows under \<open>negotiations.length > 0\<close>: the number handed to
  \<open>formatPrice\<close> under the label Best Offer and, under
  \<open>Math.min(...) < selectedSale.selling_price\<close>, the number handed to \<open>formatPrice\<close> in
  the line \<open>-{formatPrice(selectedSale.selling_price - Math.min(...))} from asking\<close>.
  \<open>asking\<close> is \<open>selectedSale.selling_price\<close>.
\<close>

record BestOfferPanel =
  best_offer :: price
  from_asking :: "price option"

definition best_offer_panel :: "price \<Rightarrow> Negotiation list \<Rightarrow> BestOfferPanel option" where
  "best_offer_panel asking negotiations =
     (if length negotiations > 0 then
        (case Math_min (map final_offer negotiations) of
           None \<Rightarrow> None
         | Some m \<Rightarrow>
             Some \<lparr> best_offer = m,
                    from_asking = (if m < asking then Some (asking - m) else None) \<rparr>)
      else None)"

section \<open>The negotiation ledger and the finalizer (the server side)\<close>

text \<open>
  The server behind \<open>/vehicle-sales/.../negotiate\<close>, \<open>.../accept\<close> and \<open>.../reject\<close> is
  not among the sources. The definitions of this section follow the specification of
  the Negotiation Ledger (section 4.1) and of the Finalizer (section 4.4); the Offer
  Extractor, the Negotiation Policy and the Reply Synthesizer, which run after the
  ledger has taken a turn, are not modelled.
\<close>

text \<open>Modelled from the spec: the error taxonomy of section 7 (the server's errors are missing).\<close>

datatype Failure =
    ListingUnavailable
  | NegotiationNotFound
  | NegotiationClosed
  | AlreadySold
  | NotOwner
  | AlreadyTerminal

text \<open>
  Modelled from the spec: the Listing of section 3 (the listing table is missing), with
  its owning seller, asking price, floor price and the active and sold flags.
\<close>

record Listing =
  seller_id :: nat
  asking_price :: price
  floor_price :: price
  is_active :: bool
  is_sold :: bool

text \<open>
  Modelled from the spec: the Negotiation of section 3 (the negotiation table is
  missing): the listing it refers to, the buyer's identity fields, filled lazily, the
  append-only transcript, the current offer, the status and the contact flag.
\<close>

record LedgerNegotiation =
  listing_id :: nat
  ledger_buyer_name :: "string option"
  ledger_buyer_email :: "string option"
  ledger_buyer_contact :: "string option"
  transcript :: "ChatMessage list"
  ledger_offer :: "price option"
  ledger_status :: status
  ledger_contact_collected :: bool

text \<open>
  Modelled from the spec: the persistent store of section 2 (missing): the listings
  keyed by listing id, and the negotiations in the order of their creation, keyed by
  negotiation id, which is the position in that order.
\<close>

record Store =
  listing_table :: "nat \<Rightarrow> Listing option"
  negotiation_table :: "LedgerNegotiation list"

text \<open>Modelled from the spec: resolving a negotiation id (section 4.1), \<open>None\<close> if it does not resolve.\<close>

definition find_negotiation :: "Store \<Rightarrow> nat \<Rightarrow> LedgerNegotiation option" where
  "find_negotiation st k =
     (if k < length (negotiation_table st) then Some (negotiation_table st ! k) else None)"

text \<open>
  Modelled from the spec: \<open>open_or_continue\<close> of section 4.1 (the negotiate route is
  missing). Without a negotiation id a new negotiation is created on the listing, and
  the call fails with \<open>ListingUnavailable\<close> if the listing is inactive or already sold
  (or does not exist). With an id the negotiation is loaded: \<open>NegotiationNotFound\<close> if
  the id does not resolve, \<open>NegotiationClosed\<close> if the status is already terminal.
  The buyer's turn is appended to the transcript. The result is the negotiation's id
  and the store.
\<close>

definition open_or_continue ::
  "nat \<Rightarrow> nat option \<Rightarrow> string \<Rightarrow> string \<Rightarrow> Store \<Rightarrow> Failure + (nat \<times> Store)" where
  "open_or_continue lid nid buyer_message now st =
     (let turn = \<lparr> sender = buyer, message = buyer_message, timestamp = now \<rparr>
      in case nid of
           None \<Rightarrow>
             (case listing_table st lid of
                None \<Rightarrow> Inl ListingUnavailable
              | Some l \<Rightarrow>
                  if \<not> is_active l \<or> is_sold l then Inl ListingUnavailable
                  else
                    (let n = \<lparr> listing_id = lid, ledger_buyer_name = None,
                               ledger_buyer_email = None, ledger_buyer_contact = None,
                               transcript = [turn], ledger_offer = None,
                               ledger_status = pending, ledger_contact_collected = False \<rparr>
                     in Inr (length (negotiation_table st),
                             st \<lparr> negotiation_table := negotiation_table st @ [n] \<rparr>)))
         | Some k \<Rightarrow>
             (case find_negotiation st k of
                None \<Rightarrow> Inl NegotiationNotFound
              | Some n \<Rightarrow>
                  if ledger_status n \<noteq> pending then Inl NegotiationClosed
                  else Inr (k, st \<lparr> negotiation_table :=
                                      (negotiation_table st)
                                        [k := n \<lparr> transcript := transcript n @ [turn] \<rparr>] \<rparr>)))"

text \<open>
  Modelled from the spec: the effect of an accept of negotiation \<open>k\<close> on the negotiation
  \<open>m\<close> with id \<open>j\<close> (section 4.4; the accept route is missing): \<open>k\<close> itself is accepted,
  every other pending negotiation on the same listing \<open>lid\<close> is rejected, and the rest
  is left as it is.
\<close>

definition settle_others :: "nat \<Rightarrow> nat \<Rightarrow> nat \<times> LedgerNegotiation \<Rightarrow> LedgerNegotiation" where
  "settle_others k lid jm =
     (case jm of (j, m) \<Rightarrow>
        if j = k then m \<lparr> ledger_status := accepted \<rparr>
        else if listing_id m = lid \<and> ledger_status m = pending
        then m \<lparr> ledger_status := rejected \<rparr>
        else m)"

text \<open>
  Modelled from the spec: \<open>accept\<close> of section 4.4 (the accept route is missing). The
  failures are \<open>NegotiationNotFound\<close>, \<open>NotOwner\<close>, \<open>AlreadySold\<close> and
  \<open>AlreadyTerminal\<close>; section 8 asks for \<open>AlreadySold\<close> on a negotiation that the sale of
  its listing has rejected, so the sold flag is tested before the status. A listing
  that is unsold but inactive, or missing, gives \<open>ListingUnavailable\<close>. The effect, in
  one step: this negotiation is accepted, the listing is sold and inactive, and every
  other pending negotiation on the same listing is rejected.
\<close>

definition accept :: "nat \<Rightarrow> nat \<Rightarrow> Store \<Rightarrow> Failure + Store" where
  "accept k acting_seller_id st =
     (case find_negotiation st k of
        None \<Rightarrow> Inl NegotiationNotFound
      | Some n \<Rightarrow>
          (case listing_table st (listing_id n) of
             None \<Rightarrow> Inl ListingUnavailable
           | Some l \<Rightarrow>
               if seller_id l \<noteq> acting_seller_id then Inl NotOwner
               else if is_sold l then Inl AlreadySold
               else if ledger_status n \<noteq> pending then Inl AlreadyTerminal
               else if \<not> is_active l then Inl ListingUnavailable
               else Inr (st \<lparr>
                 listing_table :=
                   (listing_table st)
                     (listing_id n := Some (l \<lparr> is_sold := True, is_active := False \<rparr>)),
                 negotiation_table :=
                   map (settle_others k (listing_id n)) (enumerate 0 (negotiation_table st)) \<rparr>)))"

text \<open>
  Modelled from the spec: \<open>reject\<close> of section 4.4 (the reject route is missing): the
  status of that negotiation alone becomes rejected; the listing is left as it is.
\<close>

definition reject :: "nat \<Rightarrow> nat \<Rightarrow> Store \<Rightarrow> Failure + Store" where
  "reject k acting_seller_id st =
     (case find_negotiation st k of
        None \<Rightarrow> Inl NegotiationNotFound
      | Some n \<Rightarrow>
          (case listing_table st (listing_id n) of
             None \<Rightarrow> Inl ListingUnavailable
           | Some l \<Rightarrow>
               if seller_id l \<noteq> acting_seller_id then Inl NotOwner
               else if ledger_status n \<noteq> pending then Inl AlreadyTerminal
               else Inr (st \<lparr> negotiation_table :=
                              (negotiation_table st)[k := n \<lparr> ledger_status := rejected \<rparr>] \<rparr>)))"

text \<open>
  Modelled from the spec: the requests of section 6 (the routes are missing): a
  negotiation turn on a listing, with or without a negotiation id, and the seller's
  accept and reject of a negotiation.
\<close>

datatype Op =
    Negotiate nat "nat option" string string
  | Accept nat nat
  | Reject nat nat

text \<open>Modelled from the spec: what a request does to the store, or the failure it ends with.\<close>

fun apply_op :: "Op \<Rightarrow> Store \<Rightarrow> Failure + Store" where
  "apply_op (Negotiate lid nid msg now) st =
     (case open_or_continue lid nid msg now st of Inl e \<Rightarrow> Inl e | Inr (k, st') \<Rightarrow> Inr st')"
| "apply_op (Accept k seller) st = accept k seller st"
| "apply_op (Reject k seller) st = reject k seller st"

text \<open>
  Modelled from the spec: the store after a request (section 5: all state lives in the
  store, which is missing). A request that fails leaves the store as it was.
\<close>

definition exec :: "Store \<Rightarrow> Op \<Rightarrow> Store" where
  "exec st op = (case apply_op op st of Inl e \<Rightarrow> st | Inr st' \<Rightarrow> st')"

text \<open>Modelled from the spec: the store after a sequence of requests, one after the other.\<close>

definition execs :: "Store \<Rightarrow> Op list \<Rightarrow> Store" where
  "execs st ops = foldl exec st ops"

text \<open>Two negotiations on one sale, used as concrete inputs below.\<close>

definition offer_1800000 :: Negotiation where
  "offer_1800000 =
     \<lparr> neg_id = 1, vehicle_sale_id = 7, buyer_name = ''Nimal'', buyer_email = ''nimal@example.com'',
       buyer_contact = Some ''0771234567'', final_offer = 1800000, chat_history = [],
       status = pending \<rparr>"

definition offer_1500000 :: Negotiation where
  "offer_1500000 =
     \<lparr> neg_id = 2, vehicle_sale_id = 7, buyer_name = ''Kamal'', buyer_email = ''kamal@example.com'',
       buyer_contact = None, final_offer = 1500000, chat_history = [],
       status = pending \<rparr>"

section \<open>Predicates and concrete inputs used in the statements\<close>

text \<open>The buyer's own messages in the chat of the page.\<close>

definition buyer_turns :: "ChatPage \<Rightarrow> ChatMessage list" where
  "buyer_turns s = filter (\<lambda>m. sender m = buyer) (chatMessages s)"

text \<open>A page whose negotiation is marked complete and whose chat is not empty.\<close>

definition finished :: "ChatPage \<Rightarrow> bool" where
  "finished s = (isNegotiationComplete s \<and> chatMessages s \<noteq> [])"




text \<open>A sell form with a selling price of 1,200,000 and a minimum price of 1,000,000.\<close>

definition parse_demo :: "string \<Rightarrow> jsnum" where
  "parse_demo s =
     (if s = ''1200000'' then Fin 1200000
      else if s = ''1000000'' then Fin 1000000
      else NaN)"

definition demo_form :: SellFormData where
  "demo_form =
     \<lparr> form_selling_price = ''1200000'', form_minimum_price = ''1000000'',
       features = [''New tires''], description = [], newFeature = [] \<rparr>"

definition demo_sale :: SaleData where
  "demo_sale =
     \<lparr> sale_vehicle_id = Some 3, selling_price = Fin 1200000, minimum_price = Fin 1000000,
       sale_features = [''New tires''], sale_description = [] \<rparr>"

text \<open>
  Two replies of the server, one that leaves the negotiation open and one that
  completes it. The page of sale 7 after the buyer has opened the chat and the greeting
  has been answered, which starts negotiation 5; and the same page after the buyer has
  typed contact details and pressed send, waiting for the response.
\<close>

definition open_reply :: "string \<Rightarrow> NegotiationResponse" where
  "open_reply text =
     \<lparr> response = text, current_offer = 1500000, is_final = False, negotiation_id = 5,
       response_chat_history = [], contact_collected = Some False, final_price = None \<rparr>"

definition completing_reply :: NegotiationResponse where
  "completing_reply =
     \<lparr> response = ''Thank you, the seller will contact you.'', current_offer = 1750000,
       is_final = False, negotiation_id = 5, response_chat_history = [],
       contact_collected = Some True, final_price = Some 1750000 \<rparr>"

definition demo_vehicle :: VehicleSale where
  "demo_vehicle =
     \<lparr> sale_id = 7,
       vehicle_info =
         Some \<lparr> vehicle_year = 2018, vehicle_make = ''Toyota'', vehicle_model = ''Axio'' \<rparr> \<rparr>"

definition demo_page :: ChatPage where
  "demo_page =
     run trim_latin1 initial_page
       [VehicleLoaded demo_vehicle, ClickStartNegotiation ''t0'',
        Settle ''t1'' 0 (Inr (open_reply ''The price is Rs. 2,000,000.''))]"

definition waiting_page :: ChatPage where
  "waiting_page =
     run trim_latin1 demo_page [ChangeInput ''Nimal, nimal@example.com, 0771234567'', ClickSend ''t2'']"

text \<open>
  A store with one active listing of seller 10, asking 2,000,000 with a floor of
  1,700,000, and two pending negotiations on it, 0 and 1; and the same store with
  negotiation 1 already rejected.
\<close>

definition demo_listing :: Listing where
  "demo_listing =
     \<lparr> seller_id = 10, asking_price = 2000000, floor_price = 1700000,
       is_active = True, is_sold = False \<rparr>"

definition demo_negotiation :: LedgerNegotiation where
  "demo_negotiation =
     \<lparr> listing_id = 1, ledger_buyer_name = Some ''Nimal'',
       ledger_buyer_email = Some ''nimal@example.com'',
       ledger_buyer_contact = Some ''0771234567'', transcript = [],
       ledger_offer = Some 1750000, ledger_status = pending,
       ledger_contact_collected = True \<rparr>"

definition demo_store :: Store where
  "demo_store =
     \<lparr> listing_table = (\<lambda>i. if i = 1 then Some demo_listing else None),
       negotiation_table = [demo_negotiation, demo_negotiation] \<rparr>"

definition rejected_store :: Store where
  "rejected_store =
     demo_store \<lparr> negotiation_table :=
       [demo_negotiation, demo_negotiation \<lparr> ledger_status := rejected \<rparr>] \<rparr>"

section \<open>Properties\<close>

subsection \<open>The Best Offer panel\<close>

lemma Math_min_Min: "xs \<noteq> [] \<Longrightarrow> Math_min xs = Some (Min (set xs))"
proof (induction xs)
  case Nil
  then show ?case by simp
next
  case (Cons x xs)
  show ?case
  proof (cases "xs = []")
    case True
    then show ?thesis by simp
  next
    case False
    with Cons.IH have "Math_min xs = Some (Min (set xs))" by simp
    with False show ?thesis by (simp add: Min_insert2 min_def)
  qed
qed

text \<open>
  C9. On the seller dashboard, for a non-empty list of negotiations, the Best Offer shown
  is the minimum of the negotiations' \<open>final_offer\<close> values, and the discount from the
  asking price, shown when that minimum is below the asking price, is computed from the
  same minimum.
\<close>

theorem best_offer_is_minimum:
  assumes "negotiations \<noteq> []"
  shows "best_offer_panel asking negotiations =
           Some \<lparr> best_offer = Min (final_offer ` set negotiations),
                  from_asking =
                    (if Min (final_offer ` set negotiations) < asking
                     then Some (asking - Min (final_offer ` set negotiations))
                     else None) \<rparr>"
proof -
  from assms have ne: "map final_offer negotiations \<noteq> []" by simp
  have "Math_min (map final_offer negotiations) = Some (Min (set (map final_offer negotiations)))"
    by (rule Math_min_Min [OF ne])
  then have "Math_min (map final_offer negotiations) = Some (Min (final_offer ` set negotiations))"
    by simp
  with assms show ?thesis by (simp add: best_offer_panel_def)
qed

text \<open>
  Two negotiations at 1,800,000 and 1,500,000 on a sale asking 2,000,000: the panel shows
  1,500,000 (the lower offer, not the 1,800,000 maximum) and 500,000 from asking.
\<close>

theorem best_offer_is_minimum_witness:
  "[offer_1800000, offer_1500000] \<noteq> [] \<and>
   best_offer_panel 2000000 [offer_1800000, offer_1500000] =
     Some \<lparr> best_offer = 1500000, from_asking = Some 500000 \<rparr> \<and>
   Max (final_offer ` set [offer_1800000, offer_1500000]) = 1800000"
proof -
  have ne: "[offer_1800000, offer_1500000] \<noteq> []" by simp
  show ?thesis
    using best_offer_is_minimum [OF ne, of 2000000]
    by (simp add: offer_1800000_def offer_1500000_def)
qed

subsection \<open>The fetch wrapper\<close>












subsection \<open>Listing a vehicle for sale\<close>

lemma js_not_gt_le: "a \<noteq> NaN \<Longrightarrow> b \<noteq> NaN \<Longrightarrow> \<not> js_gt a b \<Longrightarrow> js_le a b"
  by (cases a; cases b) (auto simp: js_gt_def js_le_def)

lemma js_not_le_lt: "a \<noteq> NaN \<Longrightarrow> b \<noteq> NaN \<Longrightarrow> \<not> js_le a b \<Longrightarrow> js_lt b a"
  by (cases a; cases b) (auto simp: js_le_def)

lemma handleSellSubmit_created:
  assumes "CreateVehicleSale sd \<in> set (handleSellSubmit parseFloat createVehicleSale sellingVehicle form)"
  shows "selling_price sd = parseFloat (form_selling_price form) \<and>
         minimum_price sd = parseFloat (form_minimum_price form) \<and>
         \<not> js_le (selling_price sd) (Fin 0) \<and> \<not> js_le (minimum_price sd) (Fin 0) \<and>
         \<not> js_gt (minimum_price sd) (selling_price sd)"
  using assms
  by (auto simp: handleSellSubmit_def Let_def split: option.splits if_splits sum.splits Error.splits)

text \<open>
  C6. Whenever \<open>handleSellSubmit\<close> calls \<open>createVehicleSale\<close>, the prices sent are the
  parsed inputs, neither is non-positive, and the minimum price is not above the
  selling price; when both inputs parse to numbers, \<open>0 < minimum_price <= selling_price\<close>.
  A submission with a non-positive price, or with a minimum price above the selling
  price, never reaches \<open>createVehicleSale\<close>.
\<close>

theorem handleSellSubmit_floor_le_asking:
  assumes "CreateVehicleSale sd \<in>
             set (handleSellSubmit parseFloat createVehicleSale sellingVehicle form)"
  shows "selling_price sd = parseFloat (form_selling_price form) \<and>
         minimum_price sd = parseFloat (form_minimum_price form) \<and>
         \<not> js_le (selling_price sd) (Fin 0) \<and> \<not> js_le (minimum_price sd) (Fin 0) \<and>
         \<not> js_gt (minimum_price sd) (selling_price sd) \<and>
         (selling_price sd \<noteq> NaN \<and> minimum_price sd \<noteq> NaN \<longrightarrow>
            js_le (minimum_price sd) (selling_price sd) \<and>
            js_lt (Fin 0) (minimum_price sd) \<and> js_lt (Fin 0) (selling_price sd))"
  using handleSellSubmit_created [OF assms]
  by (auto intro: js_not_gt_le js_not_le_lt)

text \<open>The form with 1,200,000 and 1,000,000 is sent, and its prices are in order.\<close>

theorem handleSellSubmit_floor_le_asking_witness:
  "CreateVehicleSale demo_sale \<in>
     set (handleSellSubmit parse_demo (\<lambda>sd. Inr JNull) (Some \<lparr> vehicle_id = Some 3 \<rparr>) demo_form) \<and>
   selling_price demo_sale = Fin 1200000 \<and> minimum_price demo_sale = Fin 1000000 \<and>
   js_le (minimum_price demo_sale) (selling_price demo_sale)"
proof -
  have sent: "CreateVehicleSale demo_sale \<in>
     set (handleSellSubmit parse_demo (\<lambda>sd. Inr JNull) (Some \<lparr> vehicle_id = Some 3 \<rparr>) demo_form)"
    by (simp add: handleSellSubmit_def parse_demo_def demo_form_def demo_sale_def
                  js_le_def js_gt_def)
  have nums: "selling_price demo_sale = Fin 1200000" "minimum_price demo_sale = Fin 1000000"
    by (simp_all add: demo_sale_def)
  have "selling_price demo_sale \<noteq> NaN \<and> minimum_price demo_sale \<noteq> NaN"
    by (simp add: nums)
  with handleSellSubmit_floor_le_asking [OF sent]
  have "js_le (minimum_price demo_sale) (selling_price demo_sale)"
    by blast
  with sent nums show ?thesis
    by blast
qed

subsection \<open>The negotiation chat\<close>

lemma greeting_demo:
  "greeting demo_vehicle =
     ''Hi! I'' @ [CHR 0x27] @ ''m interested in your 2018 Toyota Axio. What'' @ [CHR 0x27] @
     ''s the price?''"
  by (simp add: greeting_def demo_vehicle_def string_of_nat.simps)

lemma demo_page_eq:
  "demo_page =
     \<lparr> vehicle = Some demo_vehicle, showChat = True,
       chatMessages =
         [\<lparr> sender = buyer, message = greeting demo_vehicle, timestamp = ''t0'' \<rparr>,
          \<lparr> sender = system, message = ''The price is Rs. 2,000,000.'', timestamp = ''t1'' \<rparr>],
       messageInput = [], isSending = False, negotiationId = Some 5,
       isNegotiationComplete = False, finalPrice = None,
       requests = [startNegotiation_call 7 (greeting demo_vehicle)], awaiting = [] \<rparr>"
  by (simp add: demo_page_def run_def initial_page_def startNegotiation_def sendMessage_def
                settle_def Let_def open_reply_def greeting_demo trim_latin1_def is_space_def)
     (simp add: demo_vehicle_def)

lemma waiting_page_eq:
  "waiting_page =
     demo_page
       \<lparr> isSending := True,
         chatMessages := chatMessages demo_page @
           [\<lparr> sender = buyer, message = ''Nimal, nimal@example.com, 0771234567'',
              timestamp = ''t2'' \<rparr>],
         messageInput := [],
         requests := requests demo_page @
           [continueNegotiation_call 7 5 ''Nimal, nimal@example.com, 0771234567''],
         awaiting := [False] \<rparr>"
  by (simp add: waiting_page_def run_def demo_page_eq chat_input_rendered_def sendMessage_def
                Let_def trim_latin1_def is_space_def demo_vehicle_def)

lemma step_finished:
  assumes "finished s"
  shows "finished (step trim s e) \<and> requests (step trim s e) = requests s \<and>
         buyer_turns (step trim s e) = buyer_turns s"
proof (cases e)
  case (ClickStartNegotiation now)
  with assms show ?thesis
    by (simp add: finished_def buyer_turns_def startNegotiation_def split: option.splits)
next
  case (Settle now i outcome)
  with assms show ?thesis
    by (simp add: finished_def buyer_turns_def settle_def Let_def split: sum.splits)
qed (use assms in \<open>simp_all add: finished_def buyer_turns_def chat_input_rendered_def\<close>)

lemma run_finished:
  "finished s \<Longrightarrow>
     finished (run trim s es) \<and> requests (run trim s es) = requests s \<and>
     buyer_turns (run trim s es) = buyer_turns s"
  unfolding run_def
proof (induction es arbitrary: s)
  case Nil
  then show ?case by simp
next
  case (Cons e es)
  from step_finished [OF Cons.prems, of trim e]
  have f: "finished (step trim s e)" and r: "requests (step trim s e) = requests s"
    and b: "buyer_turns (step trim s e) = buyer_turns s" by simp_all
  from Cons.IH [OF f] r b show ?case by simp
qed

lemma settle_finishes:
  assumes "i < length (awaiting s)" "contact_collected r = Some True"
    "final_price r = Some p" "p \<noteq> 0"
  shows "finished (settle now i (Inr r) s)"
  using assms by (simp add: settle_def finished_def Let_def)

text \<open>
  C10. Once the response of a waiting \<open>sendMessage\<close> arrives with \<open>contact_collected\<close>
  true and a truthy \<open>final_price\<close>, then after any further events the chat input is not
  rendered, no further call has been made and no buyer message has been added.
\<close>

theorem chat_closed_after_completion:
  assumes "i < length (awaiting s)" "contact_collected r = Some True"
    "final_price r = Some p" "p \<noteq> 0"
  shows "\<not> chat_input_rendered (run trim (step trim s (Settle now i (Inr r))) es) \<and>
         requests (run trim (step trim s (Settle now i (Inr r))) es) = requests s \<and>
         buyer_turns (run trim (step trim s (Settle now i (Inr r))) es) = buyer_turns s"
proof -
  let ?s' = "step trim s (Settle now i (Inr r))"
  have f: "finished ?s'" using settle_finishes [OF assms] by simp
  have "requests ?s' = requests s" "buyer_turns ?s' = buyer_turns s"
    using assms(1) by (simp_all add: settle_def Let_def buyer_turns_def)
  with run_finished [OF f, of trim es] show ?thesis
    by (simp add: finished_def chat_input_rendered_def)
qed

text \<open>
  The page waiting for the reply to the buyer's contact details receives the completing
  reply; typing, both ways of sending and the start button then send nothing.
\<close>

theorem chat_closed_after_completion_witness:
  "0 < length (awaiting waiting_page) \<and>
   contact_collected completing_reply = Some True \<and>
   final_price completing_reply = Some 1750000 \<and>
   \<not> chat_input_rendered
       (run trim_latin1 (step trim_latin1 waiting_page (Settle ''t2'' 0 (Inr completing_reply)))
          [ChangeInput ''1600000'', ClickSend ''t3'', PressEnter ''t4'',
           ClickStartNegotiation ''t5'']) \<and>
   requests
       (run trim_latin1 (step trim_latin1 waiting_page (Settle ''t2'' 0 (Inr completing_reply)))
          [ChangeInput ''1600000'', ClickSend ''t3'', PressEnter ''t4'',
           ClickStartNegotiation ''t5'']) = requests waiting_page"
proof -
  have a: "0 < length (awaiting waiting_page)"
    by (simp add: waiting_page_eq)
  have b: "contact_collected completing_reply = Some True"
    and c: "final_price completing_reply = Some 1750000"
    by (simp_all add: completing_reply_def)
  have d: "(1750000 :: rat) \<noteq> 0" by simp
  from chat_closed_after_completion [OF a b c d, of trim_latin1] a b c show ?thesis
    by simp
qed



subsection \<open>The ledger and the finalizer\<close>

lemma find_settled:
  "find_negotiation (st \<lparr> listing_table := lt,
        negotiation_table := map (settle_others k lid) (enumerate 0 (negotiation_table st)) \<rparr>) j =
     (case find_negotiation st j of
        None \<Rightarrow> None
      | Some m \<Rightarrow> Some (settle_others k lid (j, m)))"
  by (simp add: find_negotiation_def nth_enumerate_eq)

lemma accept_sells:
  assumes "find_negotiation st a = Some na" "listing_table st (listing_id na) = Some l"
    "seller_id l = seller" "\<not> is_sold l" "is_active l" "ledger_status na = pending"
  shows "accept a seller st = Inr (st \<lparr>
           listing_table :=
             (listing_table st)(listing_id na := Some (l \<lparr> is_sold := True, is_active := False \<rparr>)),
           negotiation_table :=
             map (settle_others a (listing_id na)) (enumerate 0 (negotiation_table st)) \<rparr>)"
  using assms by (simp add: accept_def)

lemma accept_sold:
  assumes "find_negotiation st b = Some nb" "listing_table st (listing_id nb) = Some l"
    "seller_id l = seller" "is_sold l"
  shows "accept b seller st = Inl AlreadySold"
  using assms by (simp add: accept_def)

text \<open>
  C3. On a listing of the seller that is active and unsold, with two pending
  negotiations A and B: accepting A succeeds, A is accepted, the listing is sold and
  inactive, every other pending negotiation on the listing, B among them, is rejected,
  and accepting B afterwards fails with \<open>AlreadySold\<close>.
\<close>

theorem accept_is_exclusive:
  assumes "listing_table st lid = Some l" "is_active l" "\<not> is_sold l" "seller_id l = seller"
    and "find_negotiation st a = Some na" "listing_id na = lid" "ledger_status na = pending"
    and "find_negotiation st b = Some nb" "listing_id nb = lid" "ledger_status nb = pending"
    and "a \<noteq> b"
  shows "\<exists>st'. accept a seller st = Inr st' \<and>
           find_negotiation st' a = Some (na \<lparr> ledger_status := accepted \<rparr>) \<and>
           listing_table st' lid = Some (l \<lparr> is_sold := True, is_active := False \<rparr>) \<and>
           (\<forall>j m. j \<noteq> a \<and> find_negotiation st j = Some m \<and> listing_id m = lid \<and>
                  ledger_status m = pending \<longrightarrow>
                  find_negotiation st' j = Some (m \<lparr> ledger_status := rejected \<rparr>)) \<and>
           find_negotiation st' b = Some (nb \<lparr> ledger_status := rejected \<rparr>) \<and>
           accept b seller st' = Inl AlreadySold"
proof -
  let ?st' = "st \<lparr>
           listing_table :=
             (listing_table st)(listing_id na := Some (l \<lparr> is_sold := True, is_active := False \<rparr>)),
           negotiation_table :=
             map (settle_others a (listing_id na)) (enumerate 0 (negotiation_table st)) \<rparr>"
  have acc: "accept a seller st = Inr ?st'"
    using assms by (intro accept_sells) simp_all
  have a': "find_negotiation ?st' a = Some (na \<lparr> ledger_status := accepted \<rparr>)"
    using assms by (simp add: find_settled settle_others_def)
  have l': "listing_table ?st' lid = Some (l \<lparr> is_sold := True, is_active := False \<rparr>)"
    using assms by simp
  have others: "\<forall>j m. j \<noteq> a \<and> find_negotiation st j = Some m \<and> listing_id m = lid \<and>
                  ledger_status m = pending \<longrightarrow>
                  find_negotiation ?st' j = Some (m \<lparr> ledger_status := rejected \<rparr>)"
    using assms by (simp add: find_settled settle_others_def)
  have b': "find_negotiation ?st' b = Some (nb \<lparr> ledger_status := rejected \<rparr>)"
    using assms by (simp add: find_settled settle_others_def)
  have again: "accept b seller ?st' = Inl AlreadySold"
    by (rule accept_sold [OF b', where l = "l \<lparr> is_sold := True, is_active := False \<rparr>"])
       (use assms in simp_all)
  from acc a' l' others b' again show ?thesis by blast
qed

text \<open>Seller 10 accepts negotiation 0 of the store, then negotiation 1.\<close>

theorem accept_is_exclusive_witness:
  "listing_table demo_store 1 = Some demo_listing \<and> is_active demo_listing \<and>
   \<not> is_sold demo_listing \<and> seller_id demo_listing = 10 \<and>
   find_negotiation demo_store 0 = Some demo_negotiation \<and>
   find_negotiation demo_store 1 = Some demo_negotiation \<and>
   listing_id demo_negotiation = 1 \<and> ledger_status demo_negotiation = pending \<and>
   (\<exists>st'. accept 0 10 demo_store = Inr st' \<and>
          find_negotiation st' 0 = Some (demo_negotiation \<lparr> ledger_status := accepted \<rparr>) \<and>
          find_negotiation st' 1 = Some (demo_negotiation \<lparr> ledger_status := rejected \<rparr>) \<and>
          listing_table st' 1 = Some (demo_listing \<lparr> is_sold := True, is_active := False \<rparr>) \<and>
          accept 1 10 st' = Inl AlreadySold)"
proof -
  have l: "listing_table demo_store 1 = Some demo_listing"
    and a: "is_active demo_listing" and s: "\<not> is_sold demo_listing"
    and o: "seller_id demo_listing = 10"
    and n1: "find_negotiation demo_store 0 = Some demo_negotiation"
    and n2: "find_negotiation demo_store 1 = Some demo_negotiation"
    and li: "listing_id demo_negotiation = 1" and p: "ledger_status demo_negotiation = pending"
    by (simp_all add: demo_store_def demo_listing_def demo_negotiation_def find_negotiation_def)
  have d: "(0 :: nat) \<noteq> 1" by simp
  from accept_is_exclusive [OF l a s o n1 li p n2 li p d]
  have "\<exists>st'. accept 0 10 demo_store = Inr st' \<and>
          find_negotiation st' 0 = Some (demo_negotiation \<lparr> ledger_status := accepted \<rparr>) \<and>
          find_negotiation st' 1 = Some (demo_negotiation \<lparr> ledger_status := rejected \<rparr>) \<and>
          listing_table st' 1 = Some (demo_listing \<lparr> is_sold := True, is_active := False \<rparr>) \<and>
          accept 1 10 st' = Inl AlreadySold"
    by blast
  with l a s o n1 n2 li p show ?thesis by blast
qed

lemma apply_op_step:
  assumes "apply_op op st = Inr st'" "find_negotiation st j = Some m"
  shows "\<exists>m'. find_negotiation st' j = Some m' \<and> (ledger_status m \<noteq> pending \<longrightarrow> m' = m)"
proof (cases op)
  case (Negotiate lid nid msg now)
  with assms show ?thesis
    by (auto simp: open_or_continue_def find_negotiation_def Let_def nth_append nth_list_update
             split: option.splits if_splits sum.splits)
next
  case (Accept k seller)
  with assms show ?thesis
    by (auto simp: accept_def find_settled settle_others_def split: option.splits if_splits)
next
  case (Reject k seller)
  with assms show ?thesis
    by (auto simp: reject_def find_negotiation_def nth_list_update split: option.splits if_splits)
qed

lemma exec_step:
  assumes "find_negotiation st j = Some m"
  shows "\<exists>m'. find_negotiation (exec st op) j = Some m' \<and> (ledger_status m \<noteq> pending \<longrightarrow> m' = m)"
proof (cases "apply_op op st")
  case (Inl e)
  with assms show ?thesis by (simp add: exec_def)
next
  case (Inr st')
  with apply_op_step [OF Inr assms] show ?thesis by (simp add: exec_def)
qed

lemma execs_terminal:
  assumes "find_negotiation st k = Some n" "ledger_status n \<noteq> pending"
  shows "find_negotiation (execs st ops) k = Some n"
  using assms unfolding execs_def
proof (induction ops arbitrary: st)
  case Nil
  then show ?case by simp
next
  case (Cons op ops)
  from exec_step [OF Cons.prems(1), of op] Cons.prems(2)
  have "find_negotiation (exec st op) k = Some n"
    by auto
  from Cons.IH [OF this Cons.prems(2)] show ?case by simp
qed

text \<open>
  C7. A request changes the status of a negotiation only if that status was pending.
  A negotiation whose status is accepted or rejected stays exactly as it is under any
  sequence of requests, and on it a further buyer turn fails with \<open>NegotiationClosed\<close>
  and neither accept nor reject succeeds.
\<close>

theorem terminal_status_is_final:
  assumes "find_negotiation st k = Some n" and "ledger_status n \<noteq> pending"
  shows "find_negotiation (execs st ops) k = Some n \<and>
         open_or_continue lid (Some k) msg now (execs st ops) = Inl NegotiationClosed \<and>
         accept k seller (execs st ops) \<noteq> Inr st1 \<and>
         reject k seller (execs st ops) \<noteq> Inr st2 \<and>
         (\<forall>op st' j m. apply_op op st = Inr st' \<and> find_negotiation st j = Some m \<longrightarrow>
            (\<exists>m'. find_negotiation st' j = Some m' \<and>
                  (ledger_status m' = ledger_status m \<or> ledger_status m = pending)))"
proof -
  have frozen: "find_negotiation (execs st ops) k = Some n"
    using execs_terminal [OF assms] by simp
  have closed: "open_or_continue lid (Some k) msg now (execs st ops) = Inl NegotiationClosed"
    using frozen assms(2) by (simp add: open_or_continue_def)
  have noacc: "accept k seller (execs st ops) \<noteq> Inr st1"
    using frozen assms(2) by (auto simp: accept_def split: option.splits)
  have norej: "reject k seller (execs st ops) \<noteq> Inr st2"
    using frozen assms(2) by (auto simp: reject_def split: option.splits)
  have stepw: "\<forall>op st' j m. apply_op op st = Inr st' \<and> find_negotiation st j = Some m \<longrightarrow>
            (\<exists>m'. find_negotiation st' j = Some m' \<and>
                  (ledger_status m' = ledger_status m \<or> ledger_status m = pending))"
  proof (intro allI impI)
    fix op st' j m
    assume h: "apply_op op st = Inr st' \<and> find_negotiation st j = Some m"
    then obtain m' where "find_negotiation st' j = Some m'" "ledger_status m \<noteq> pending \<longrightarrow> m' = m"
      using apply_op_step [of op st st' j m] by blast
    then show "\<exists>m'. find_negotiation st' j = Some m' \<and>
                  (ledger_status m' = ledger_status m \<or> ledger_status m = pending)"
      by auto
  qed
  from frozen closed noacc norej stepw show ?thesis by blast
qed

text \<open>
  Negotiation 1 of the store is rejected; a buyer turn on it, an accept, a reject and
  the sale of the listing through negotiation 0 leave it as it was, and it stays closed.
\<close>

theorem terminal_status_is_final_witness:
  "find_negotiation rejected_store 1 = Some (demo_negotiation \<lparr> ledger_status := rejected \<rparr>) \<and>
   ledger_status (demo_negotiation \<lparr> ledger_status := rejected \<rparr>) \<noteq> pending \<and>
   find_negotiation
     (execs rejected_store
        [Negotiate 1 (Some 1) ''1800000'' ''t1'', Accept 1 10, Reject 1 10, Accept 0 10]) 1 =
     Some (demo_negotiation \<lparr> ledger_status := rejected \<rparr>) \<and>
   open_or_continue 1 (Some 1) ''1800000'' ''t2''
     (execs rejected_store
        [Negotiate 1 (Some 1) ''1800000'' ''t1'', Accept 1 10, Reject 1 10, Accept 0 10]) =
     Inl NegotiationClosed"
proof -
  have b: "find_negotiation rejected_store 1 =
             Some (demo_negotiation \<lparr> ledger_status := rejected \<rparr>)"
    by (simp add: rejected_store_def find_negotiation_def)
  have c: "ledger_status (demo_negotiation \<lparr> ledger_status := rejected \<rparr>) \<noteq> pending"
    by simp
  from terminal_status_is_final [OF b c] b c show ?thesis
    by blast
qed

end
